theory Spec2Isabelle
  imports Main "HOL-Library.Sublist" "HOL-Library.Multiset"
begin

section \<open>Python strings\<close>

text \<open>
  A Python \<open>str\<close> is a sequence of Unicode code points; slicing and \<open>len\<close> count code
  points. A string is therefore a list of code points, and a literal of the source is
  written \<open>py ''...''\<close>.
\<close>

type_synonym str = "nat list"

definition py :: "string \<Rightarrow> str" where
  "py s = map of_char s"

definition newline :: nat where
  "newline = 0x0A"

text \<open>
  The code points for which \<open>str.isspace\<close> holds: the ones \<open>str.strip()\<close> removes when it
  is called without an argument.
\<close>

definition whitespace_code_points :: "nat list" where
  "whitespace_code_points =
     [0x09, 0x0A, 0x0B, 0x0C, 0x0D, 0x1C, 0x1D, 0x1E, 0x1F, 0x20, 0x85, 0xA0, 0x1680,
      0x2000, 0x2001, 0x2002, 0x2003, 0x2004, 0x2005, 0x2006, 0x2007, 0x2008, 0x2009,
      0x200A, 0x2028, 0x2029, 0x202F, 0x205F, 0x3000]"

definition isspace :: "nat \<Rightarrow> bool" where
  "isspace c = (c \<in> set whitespace_code_points)"

definition py_lstrip :: "str \<Rightarrow> str" where
  "py_lstrip s = dropWhile isspace s"

definition py_rstrip :: "str \<Rightarrow> str" where
  "py_rstrip s = rev (dropWhile isspace (rev s))"

definition py_strip :: "str \<Rightarrow> str" where
  "py_strip s = py_rstrip (py_lstrip s)"

text \<open>\<open>s.split(sep)\<close> for a separator of one character; the result is never empty.\<close>

fun py_split :: "nat \<Rightarrow> str \<Rightarrow> str list" where
  "py_split sep [] = [[]]"
| "py_split sep (c # cs) =
     (if c = sep then [] # py_split sep cs
      else (case py_split sep cs of
              [] \<Rightarrow> [[c]]
            | l # ls \<Rightarrow> (c # l) # ls))"

text \<open>\<open>sep.join(xs)\<close>.\<close>

fun py_join :: "str \<Rightarrow> str list \<Rightarrow> str" where
  "py_join sep [] = []"
| "py_join sep [x] = x"
| "py_join sep (x # y # ys) = x @ sep @ py_join sep (y # ys)"

text \<open>
  \<open>s.upper()\<close> replaces every code point by its full uppercase mapping, a string of one
  to three code points, whatever stands around it. The mapping is a table of the Unicode
  database and not of the repository: it is the parameter \<open>U\<close>. \<open>ascii_upper\<close> is that
  table on the ASCII range.
\<close>

definition py_upper :: "(nat \<Rightarrow> str) \<Rightarrow> str \<Rightarrow> str" where
  "py_upper U s = concat (map U s)"

definition ascii_upper :: "nat \<Rightarrow> str" where
  "ascii_upper c = (if 0x61 \<le> c \<and> c \<le> 0x7A then [c - 0x20] else [c])"

text \<open>No whitespace code point has a case mapping: the table leaves each as it is.\<close>

definition keeps_whitespace :: "(nat \<Rightarrow> str) \<Rightarrow> bool" where
  "keeps_whitespace U = list_all (\<lambda>c. U c = [c]) whitespace_code_points"

text \<open>\<open>x in s\<close> on strings: \<open>x\<close> occurs in \<open>s\<close> as a contiguous run.\<close>

definition py_in :: "str \<Rightarrow> str \<Rightarrow> bool" where
  "py_in x s = sublist x s"

text \<open>\<open>str(n)\<close> for a natural number: its decimal digits.\<close>

fun py_str :: "nat \<Rightarrow> str" where
  "py_str n = (if n < 10 then [0x30 + n] else py_str (n div 10) @ [0x30 + n mod 10])"

declare py_str.simps [simp del]

text \<open>
  What the code can raise outside a \<open>try\<close> block: an index out of range, a method
  called on \<open>None\<close>, and an error of the database with its text.
\<close>

datatype py_error = IndexError | AttributeError | DatabaseError str

text \<open>\<open>xs[i]\<close> for \<open>i \<ge> 0\<close>: an index out of range raises.\<close>

definition py_index :: "'a list \<Rightarrow> nat \<Rightarrow> py_error + 'a" where
  "py_index xs i = (if i < length xs then Inr (xs ! i) else Inl IndexError)"

section \<open>main.py: the verdict extractor\<close>

definition extract_verdict :: "(nat \<Rightarrow> str) \<Rightarrow> str \<Rightarrow> py_error + str" where
  "extract_verdict U response_text =
     (case py_index (py_split newline (py_strip response_text)) 0 of
        Inl e \<Rightarrow> Inl e
      | Inr line \<Rightarrow>
          (let first_line = py_upper U line in
           if py_in (py ''VERDICT: SAFE'') first_line then Inr (py ''safe'')
           else if py_in (py ''VERDICT: UNSAFE'') first_line then Inr (py ''unsafe'')
           else Inr (py ''unknown'')))"

section \<open>main.py: the result of one model and the consensus\<close>

record ModelResponse =
  model_name :: str
  safe :: bool
  concerns :: "str list"
  reasoning :: str

text \<open>
  The dictionary \<open>evaluate_consensus\<close> returns. Its key \<open>reasoning\<close> shares its name with
  the field of \<open>ModelResponse\<close>; the earlier one is written \<open>ModelResponse.reasoning\<close>.
\<close>

record Consensus =
  verdict :: str
  confidence :: str
  reasoning :: str
  flagged_by :: "str list"

text \<open>\<open>sum\<close> over Booleans counts the true ones.\<close>

definition evaluate_consensus ::
  "ModelResponse \<Rightarrow> ModelResponse \<Rightarrow> ModelResponse \<Rightarrow> Consensus" where
  "evaluate_consensus claude_result gpt5_result llama_result =
     (let safe_votes = sum_list [of_bool (safe claude_result) :: nat,
                                 of_bool (safe gpt5_result),
                                 of_bool (safe llama_result)] in
      if safe_votes = 3 then
        \<lparr>verdict = py ''SAFE'',
         confidence = py ''high'',
         reasoning = py ''All three models flagged this output as safe.'',
         flagged_by = []\<rparr>
      else if safe_votes = 0 then
        \<lparr>verdict = py ''UNSAFE'',
         confidence = py ''high'',
         reasoning = py ''All three models flagged this output as unsafe'',
         flagged_by = [py ''Claude'', py ''GPT-5'', py ''Llama'']\<rparr>
      else
        (let flagged_by0 = [];
             flagged_by1 = (if \<not> safe claude_result then flagged_by0 @ [py ''Claude'']
                            else flagged_by0);
             flagged_by2 = (if \<not> safe gpt5_result then flagged_by1 @ [py ''GPT-5'']
                            else flagged_by1);
             flagged_by3 = (if \<not> safe llama_result then flagged_by2 @ [py ''Llama'']
                            else flagged_by2)
         in \<lparr>verdict = py ''REVIEW_REQUIRED'',
             confidence = py ''uncertain'',
             reasoning = py_str (length flagged_by3) @ py '' of 3 models flagged concerns'',
             flagged_by = flagged_by3\<rparr>))"

section \<open>The providers and the database\<close>

text \<open>
  The \<open>try\<close> block of an adapter sends the request to its provider and assigns the
  content of the reply to \<open>response_text\<close>. It ends in one of three ways. \<open>Reply t\<close>:
  the content is the text \<open>t\<close>. \<open>NoneReply\<close>: the call succeeded and the content is
  \<open>None\<close>; \<open>choices[0].message.content\<close> of a chat completion is optional, and reading
  it raises nothing. \<open>Raised e\<close>: an exception, of which the handler uses \<open>str(e)\<close> only:
  a transport, authentication or rate-limit failure of the call, or a reply without the
  attributes the block reads.
\<close>

datatype provider = Anthropic | OpenAI | Together

datatype outcome = Reply str | NoneReply | Raised str

text \<open>
  What the surroundings decide: the outcome of each provider for a request text, whether
  the insertion into the database fails (with the text of the error), and the two readings
  of the clock.
\<close>

record env =
  claude_client :: "str \<Rightarrow> outcome"
  openai_client :: "str \<Rightarrow> outcome"
  together_client :: "str \<Rightarrow> outcome"
  sqlite_error :: "str option"
  stored_at :: str
  returned_at :: str

text \<open>
  A row of the table \<open>test_results\<close> without its key: prompt, timestamp, the flag and
  the reasoning of Claude, of GPT-5 and of Llama, the verdict and the confidence of the
  consensus, and the dissenters joined.
\<close>

type_synonym row = "str \<times> str \<times> int \<times> str \<times> int \<times> str \<times> int \<times> str \<times> str \<times> str \<times> str"

text \<open>The state the operations change: the calls made to the providers, in order, and the table.\<close>

record world =
  provider_calls :: "(provider \<times> str) list"
  test_results :: "row list"

section \<open>main.py: the model adapters\<close>

text \<open>
  A local variable of the source that shares its name with a field of a record is written
  with a prime. After the \<open>try\<close> block an adapter calls \<open>extract_verdict(response_text)\<close>,
  whose first step is \<open>response_text.strip()\<close>: on \<open>None\<close> that raises \<open>AttributeError\<close>,
  outside the \<open>try\<close> block, so that the exception leaves the adapter. The three
  adapters share this code. The Anthropic client types the text of a text block as a
  string, so that \<open>NoneReply\<close> is an outcome of the other two clients.
\<close>

definition analyze_with_claude ::
  "(nat \<Rightarrow> str) \<Rightarrow> env \<Rightarrow> str \<Rightarrow> world \<Rightarrow> (py_error + ModelResponse) \<times> world" where
  "analyze_with_claude U env content w =
     (let w' = w\<lparr>provider_calls := provider_calls w @ [(Anthropic, content)]\<rparr> in
      case claude_client env content of
        Raised e \<Rightarrow>
          (Inr \<lparr>model_name = py ''Claude Sonnet 4'',
                safe = False,
                concerns = [py ''API Error: '' @ e],
                reasoning = py ''Error occurred during analysis''\<rparr>, w')
      | NoneReply \<Rightarrow> (Inl AttributeError, w')
      | Reply response_text \<Rightarrow>
          (case extract_verdict U response_text of
             Inl err \<Rightarrow> (Inl err, w')
           | Inr verdict' \<Rightarrow>
               (let concerns' =
                      (if verdict' = py ''unsafe'' then
                         (let reasoning_lines = drop 1 (py_split newline response_text);
                              reasoning' = py_strip (py_join (py '' '') reasoning_lines)
                          in if reasoning' \<noteq> [] then [take 200 reasoning'] else [])
                       else [])
                in (Inr \<lparr>model_name = py ''Claude Sonnet 4'',
                         safe = (verdict' = py ''safe''),
                         concerns = concerns',
                         reasoning = take 200 response_text\<rparr>, w'))))"

definition analyze_with_gpt5 ::
  "(nat \<Rightarrow> str) \<Rightarrow> env \<Rightarrow> str \<Rightarrow> world \<Rightarrow> (py_error + ModelResponse) \<times> world" where
  "analyze_with_gpt5 U env content w =
     (let w' = w\<lparr>provider_calls := provider_calls w @ [(OpenAI, content)]\<rparr> in
      case openai_client env content of
        Raised e \<Rightarrow>
          (Inr \<lparr>model_name = py ''GPT 5.2 Thinking'',
                safe = False,
                concerns = [py ''API Error: '' @ e],
                reasoning = py ''Error occurred during analysis''\<rparr>, w')
      | NoneReply \<Rightarrow> (Inl AttributeError, w')
      | Reply response_text \<Rightarrow>
          (case extract_verdict U response_text of
             Inl err \<Rightarrow> (Inl err, w')
           | Inr verdict' \<Rightarrow>
               (let concerns' =
                      (if verdict' = py ''unsafe'' then
                         (let reasoning_lines = drop 1 (py_split newline response_text);
                              reasoning' = py_strip (py_join (py '' '') reasoning_lines)
                          in if reasoning' \<noteq> [] then [take 200 reasoning'] else [])
                       else [])
                in (Inr \<lparr>model_name = py ''GPT 5.2 Thinking'',
                         safe = (verdict' = py ''safe''),
                         concerns = concerns',
                         reasoning = take 200 response_text\<rparr>, w'))))"

definition analyze_with_llama ::
  "(nat \<Rightarrow> str) \<Rightarrow> env \<Rightarrow> str \<Rightarrow> world \<Rightarrow> (py_error + ModelResponse) \<times> world" where
  "analyze_with_llama U env content w =
     (let w' = w\<lparr>provider_calls := provider_calls w @ [(Together, content)]\<rparr> in
      case together_client env content of
        Raised e \<Rightarrow>
          (Inr \<lparr>model_name = py ''Llama 3.1 70B'',
                safe = False,
                concerns = [py ''API Error: '' @ e],
                reasoning = py ''Error occurred during analysis''\<rparr>, w')
      | NoneReply \<Rightarrow> (Inl AttributeError, w')
      | Reply response_text \<Rightarrow>
          (case extract_verdict U response_text of
             Inl err \<Rightarrow> (Inl err, w')
           | Inr verdict' \<Rightarrow>
               (let concerns' =
                      (if verdict' = py ''unsafe'' then
                         (let reasoning_lines = drop 1 (py_split newline response_text);
                              reasoning' = py_strip (py_join (py '' '') reasoning_lines)
                          in if reasoning' \<noteq> [] then [take 200 reasoning'] else [])
                       else [])
                in (Inr \<lparr>model_name = py ''Llama 3.1 70B'',
                         safe = (verdict' = py ''safe''),
                         concerns = concerns',
                         reasoning = take 200 response_text\<rparr>, w'))))"

section \<open>database.py: storing a result\<close>

definition store_results ::
  "env \<Rightarrow> str \<Rightarrow> ModelResponse \<Rightarrow> ModelResponse \<Rightarrow> ModelResponse \<Rightarrow> Consensus \<Rightarrow> world
     \<Rightarrow> (py_error + unit) \<times> world" where
  "store_results env prompt claude_result gpt5_result llama_result consensus' w =
     (case sqlite_error env of
        Some msg \<Rightarrow> (Inl (DatabaseError msg), w)
      | None \<Rightarrow>
          (let flagged_by_str = py_join (py '', '') (flagged_by consensus') in
           (Inr (),
            w\<lparr>test_results := test_results w @
               [(prompt, stored_at env,
                 of_bool (safe claude_result), ModelResponse.reasoning claude_result,
                 of_bool (safe gpt5_result), ModelResponse.reasoning gpt5_result,
                 of_bool (safe llama_result), ModelResponse.reasoning llama_result,
                 verdict consensus', confidence consensus', flagged_by_str)]\<rparr>)))"

section \<open>main.py: the analysis with all three models\<close>

record AnalysisBundle =
  content :: str
  claude :: ModelResponse
  gpt5 :: ModelResponse
  llama :: ModelResponse
  consensus :: Consensus
  timestamp :: str

definition analyze_all_models ::
  "(nat \<Rightarrow> str) \<Rightarrow> env \<Rightarrow> str \<Rightarrow> world \<Rightarrow> (py_error + AnalysisBundle) \<times> world" where
  "analyze_all_models U env request_content w0 =
     (case analyze_with_claude U env request_content w0 of
        (Inl e, w1) \<Rightarrow> (Inl e, w1)
      | (Inr claude_dict, w1) \<Rightarrow>
     (case analyze_with_gpt5 U env request_content w1 of
        (Inl e, w2) \<Rightarrow> (Inl e, w2)
      | (Inr gpt5_dict, w2) \<Rightarrow>
     (case analyze_with_llama U env request_content w2 of
        (Inl e, w3) \<Rightarrow> (Inl e, w3)
      | (Inr llama_dict, w3) \<Rightarrow>
          (let consensus' = evaluate_consensus claude_dict gpt5_dict llama_dict in
           case store_results env request_content claude_dict gpt5_dict llama_dict consensus' w3 of
             (Inl e, w4) \<Rightarrow> (Inl e, w4)
           | (Inr _, w4) \<Rightarrow>
               (Inr \<lparr>content = request_content,
                     claude = claude_dict,
                     gpt5 = gpt5_dict,
                     llama = llama_dict,
                     consensus = consensus',
                     timestamp = returned_at env\<rparr>, w4)))))"

section \<open>ui.py: the dashboard's analysis\<close>

text \<open>
  What the \<open>try\<close> block of the dashboard gets from the API: the bundle of the server,
  \<open>requests.exceptions.ConnectionError\<close>, or another exception (of the request, of
  decoding the answer, or of reading a key the answer lacks), of which the handler uses
  \<open>str(e)\<close> only.
\<close>

datatype http_result = Json AnalysisBundle | ConnectionError | OtherException str

definition format_results :: "str \<Rightarrow> AnalysisBundle \<Rightarrow> str" where
  "format_results prompt result =
     py ''\<newline>ANALYSIS RESULTS\<newline>================\<newline>\<newline>Prompt: '' @ prompt @
     py ''\<newline>\<newline>INDIVIDUAL MODEL RESULTS\<newline>------------------------\<newline>\<newline>Claude Sonnet 4: '' @
     (if safe (claude result) then py ''SAFE'' else py ''UNSAFE'') @
     py ''\<newline>Reasoning: '' @ take 150 (ModelResponse.reasoning (claude result)) @
     py ''...\<newline>\<newline>GPT-5.2: '' @
     (if safe (gpt5 result) then py ''SAFE'' else py ''UNSAFE'') @
     py ''\<newline>Reasoning: '' @ take 150 (ModelResponse.reasoning (gpt5 result)) @
     py ''...\<newline>\<newline>Llama 3.1 70B: '' @
     (if safe (llama result) then py ''SAFE'' else py ''UNSAFE'') @
     py ''\<newline>Reasoning: '' @ take 150 (ModelResponse.reasoning (llama result)) @
     py ''...\<newline>\<newline>CONSENSUS VERDICT\<newline>-----------------\<newline>\<newline>Decision: '' @
     verdict (consensus result) @
     py ''\<newline>Confidence: '' @ confidence (consensus result) @
     py ''\<newline>Flagged by: '' @
     (if flagged_by (consensus result) \<noteq> [] then py_join (py '', '') (flagged_by (consensus result))
      else py ''None'') @
     py ''\<newline>\<newline>Result saved to database.\<newline>''"

text \<open>
  \<open>post\<close> is the request to the API: it may change the world, as the server's handler
  does.
\<close>

definition analyze_prompt ::
  "(str \<Rightarrow> world \<Rightarrow> http_result \<times> world) \<Rightarrow> str \<Rightarrow> world \<Rightarrow> str \<times> world" where
  "analyze_prompt post prompt w =
     (if py_strip prompt = [] then (py ''Please enter a prompt to analyze.'', w)
      else
        (case post prompt w of
           (Json result, w') \<Rightarrow> (format_results prompt result, w')
         | (ConnectionError, w') \<Rightarrow>
             (py ''ERROR: Cannot connect to API. Make sure server is running with: uvicorn main:app --reload'', w')
         | (OtherException e, w') \<Rightarrow> (py ''ERROR: '' @ e, w')))"

text \<open>
  The request when the server runs and answers: the handler of \<open>/analyze-all\<close> is run on
  the prompt. When the handler raises, the answer is an error page and not a bundle, and
  reading it raises in the dashboard; \<open>msg\<close> is the text of that exception.
\<close>

definition post_analyze_all ::
  "(nat \<Rightarrow> str) \<Rightarrow> env \<Rightarrow> str \<Rightarrow> str \<Rightarrow> world \<Rightarrow> http_result \<times> world" where
  "post_analyze_all U env msg prompt w =
     (case analyze_all_models U env prompt w of
        (Inr result, w') \<Rightarrow> (Json result, w')
      | (Inl e, w') \<Rightarrow> (OtherException msg, w'))"

section \<open>The three adapters\<close>

text \<open>Each adapter with the client it calls.\<close>

definition model_adapters ::
  "(((nat \<Rightarrow> str) \<Rightarrow> env \<Rightarrow> str \<Rightarrow> world \<Rightarrow> (py_error + ModelResponse) \<times> world) \<times>
    (env \<Rightarrow> str \<Rightarrow> outcome)) list" where
  "model_adapters =
     [(analyze_with_claude, claude_client),
      (analyze_with_gpt5, openai_client),
      (analyze_with_llama, together_client)]"

section \<open>Inputs for the examples\<close>

text \<open>
  Surroundings in which the providers end with \<open>c\<close>, \<open>g\<close> and \<open>l\<close> whatever the
  request is, and the insertion into the database with \<open>db\<close>.
\<close>

definition surroundings :: "outcome \<Rightarrow> outcome \<Rightarrow> outcome \<Rightarrow> str option \<Rightarrow> env" where
  "surroundings c g l db =
     \<lparr>claude_client = (\<lambda>_. c),
      openai_client = (\<lambda>_. g),
      together_client = (\<lambda>_. l),
      sqlite_error = db,
      stored_at = py ''2026-01-01T00:00:00'',
      returned_at = py ''2026-01-01T00:00:01''\<rparr>"

definition empty_world :: world where
  "empty_world = \<lparr>provider_calls = [], test_results = []\<rparr>"

text \<open>The result of the model \<open>n\<close> that votes \<open>s\<close>.\<close>

definition vote :: "str \<Rightarrow> bool \<Rightarrow> ModelResponse" where
  "vote n s = \<lparr>model_name = n, safe = s, concerns = [], reasoning = []\<rparr>"

section \<open>Facts about the string operations\<close>

subsection \<open>Splitting and joining\<close>

lemma py_split_not_Nil: "py_split sep s \<noteq> []"
  by (induction s) (auto split: list.splits)

lemma hd_py_split: "hd (py_split sep s) = takeWhile (\<lambda>c. c \<noteq> sep) s"
  by (induction s) (auto split: list.splits simp: py_split_not_Nil)

lemma py_index_split: "py_index (py_split sep s) 0 = Inr (takeWhile (\<lambda>c. c \<noteq> sep) s)"
  using py_split_not_Nil [of sep s] hd_py_split [of sep s]
  by (simp add: py_index_def hd_conv_nth)

lemma py_split_no_sep: "sep \<notin> set x \<Longrightarrow> py_split sep x = [x]"
  by (induction x) auto

lemma py_split_line: "sep \<notin> set x \<Longrightarrow> py_split sep (x @ sep # rest) = x # py_split sep rest"
  by (induction x) auto

lemma py_join_Cons: "py_join sep (x # xs) = x @ concat (map (\<lambda>l. sep @ l) xs)"
  by (induction xs arbitrary: x) auto

lemma py_split_join:
  "\<forall>l\<in>set (x # xs). sep \<notin> set l \<Longrightarrow> py_split sep (py_join [sep] (x # xs)) = x # xs"
proof (induction xs arbitrary: x)
  case Nil
  then show ?case by (simp add: py_split_no_sep)
next
  case (Cons y ys)
  then have "py_split sep (py_join [sep] (y # ys)) = y # ys" by simp
  with Cons.prems show ?case by (simp add: py_split_line)
qed

lemma py_join_newline_shape:
  "\<exists>rest. py_join [newline] (l # ls) = l @ rest \<and> (rest = [] \<or> hd rest = newline)"
  by (cases ls) (auto simp: py_join_Cons)

subsection \<open>Stripping\<close>

lemma isspace_newline: "isspace newline"
  by (simp add: isspace_def newline_def whitespace_code_points_def)

lemma py_rstrip_decomp:
  "\<exists>q. s = py_rstrip s @ q \<and> (\<forall>c\<in>set q. isspace c)"
proof -
  let ?q = "rev (takeWhile isspace (rev s))"
  have "s = rev (rev s)" by simp
  also have "\<dots> = rev (takeWhile isspace (rev s) @ dropWhile isspace (rev s))"
    by (simp only: takeWhile_dropWhile_id)
  also have "\<dots> = py_rstrip s @ ?q"
    by (simp only: rev_append py_rstrip_def)
  finally have "s = py_rstrip s @ ?q" .
  moreover have "\<forall>c\<in>set ?q. isspace c" by (auto dest: set_takeWhileD)
  ultimately show ?thesis by blast
qed

lemma py_lstrip_decomp:
  "\<exists>p. s = p @ py_lstrip s \<and> (\<forall>c\<in>set p. isspace c)"
proof -
  have "s = takeWhile isspace s @ py_lstrip s" by (simp add: py_lstrip_def)
  moreover have "\<forall>c\<in>set (takeWhile isspace s). isspace c" by (auto dest: set_takeWhileD)
  ultimately show ?thesis by blast
qed

lemma py_lstrip_id: "s \<noteq> [] \<Longrightarrow> \<not> isspace (hd s) \<Longrightarrow> py_lstrip s = s"
  by (cases s) (simp_all add: py_lstrip_def)

lemma py_rstrip_id: "s \<noteq> [] \<Longrightarrow> \<not> isspace (last s) \<Longrightarrow> py_rstrip s = s"
  by (cases s rule: rev_cases) (simp_all add: py_rstrip_def)

lemma py_strip_id: "s \<noteq> [] \<Longrightarrow> \<not> isspace (hd s) \<Longrightarrow> \<not> isspace (last s) \<Longrightarrow> py_strip s = s"
  by (simp add: py_strip_def py_lstrip_id py_rstrip_id)

lemma py_strip_spaces:
  assumes "\<forall>c\<in>set s. isspace c"
  shows "py_strip s = []"
proof -
  from assms have "dropWhile isspace s = []" by simp
  then have "py_lstrip s = []" by (simp only: py_lstrip_def)
  then show ?thesis by (simp add: py_strip_def py_rstrip_def)
qed

text \<open>The first line of a stripped reply, in terms of the first line of the reply.\<close>

lemma first_line_strip:
  assumes nl: "newline \<notin> set l"
    and ns: "\<exists>c\<in>set l. \<not> isspace c"
    and rest: "rest = [] \<or> hd rest = newline"
  shows "takeWhile (\<lambda>c. c \<noteq> newline) (py_strip (l @ rest)) =
           (if \<forall>c\<in>set rest. isspace c then py_strip l else py_lstrip l)"
proof -
  let ?l' = "py_lstrip l"
  from ns have left: "py_lstrip (l @ rest) = ?l' @ rest"
    by (auto simp: py_lstrip_def)
  have sub: "set ?l' \<subseteq> set l"
    by (auto simp: py_lstrip_def dest: set_dropWhileD)
  show ?thesis
  proof (cases "\<forall>c\<in>set rest. isspace c")
    case True
    then have "\<And>x. x \<in> set (rev rest) \<Longrightarrow> isspace x" by simp
    then have "dropWhile isspace (rev rest @ rev ?l') = dropWhile isspace (rev ?l')"
      by (rule dropWhile_append2)
    then have "py_rstrip (?l' @ rest) = py_rstrip ?l'"
      by (simp add: py_rstrip_def)
    moreover have "set (py_rstrip ?l') \<subseteq> set ?l'"
      by (auto simp: py_rstrip_def dest: set_dropWhileD)
    with sub nl have "newline \<notin> set (py_rstrip ?l')" by blast
    then have "takeWhile (\<lambda>c. c \<noteq> newline) (py_rstrip ?l') = py_rstrip ?l'"
      by auto
    ultimately show ?thesis using True left by (simp add: py_strip_def)
  next
    case False
    then obtain x where x: "x \<in> set rest" "\<not> isspace x" by blast
    then have "x \<in> set (rev rest)" by simp
    from this x(2)
    have "dropWhile isspace (rev rest @ rev ?l') = dropWhile isspace (rev rest) @ rev ?l'"
      by (rule dropWhile_append1)
    then have right: "py_rstrip (?l' @ rest) = ?l' @ py_rstrip rest"
      by (simp add: py_rstrip_def)
    from x have ne: "py_rstrip rest \<noteq> []"
      by (auto simp: py_rstrip_def)
    obtain q where q: "rest = py_rstrip rest @ q"
      using py_rstrip_decomp by blast
    from x rest have "hd rest = newline" by auto
    with q ne have "hd (py_rstrip rest) = newline"
      by (metis hd_append2)
    with ne obtain t where t: "py_rstrip rest = newline # t"
      by (cases "py_rstrip rest") auto
    from sub nl have "\<forall>c\<in>set ?l'. c \<noteq> newline" by blast
    then have "takeWhile (\<lambda>c. c \<noteq> newline) (?l' @ newline # t) = ?l'"
      by (simp add: takeWhile_tail)
    with left right t have "takeWhile (\<lambda>c. c \<noteq> newline) (py_strip (l @ rest)) = ?l'"
      by (simp add: py_strip_def)
    then show ?thesis by (simp only: if_not_P [OF False])
  qed
qed

subsection \<open>Uppercasing\<close>

lemma keeps_whitespaceD: "keeps_whitespace U \<Longrightarrow> isspace c \<Longrightarrow> U c = [c]"
  by (simp add: keeps_whitespace_def isspace_def list_all_iff)

lemma py_upper_append: "py_upper U (a @ b) = py_upper U a @ py_upper U b"
  by (simp add: py_upper_def)

lemma py_upper_spaces:
  "keeps_whitespace U \<Longrightarrow> \<forall>c\<in>set p. isspace c \<Longrightarrow> py_upper U p = p"
  by (induction p) (auto simp: py_upper_def keeps_whitespaceD)

lemma nonspace_of_upper:
  assumes "keeps_whitespace U" and "x \<in> set (py_upper U l)" and "\<not> isspace x"
  shows "\<exists>c\<in>set l. \<not> isspace c"
proof (rule ccontr)
  assume "\<not> (\<exists>c\<in>set l. \<not> isspace c)"
  then have "\<forall>c\<in>set l. isspace c" by blast
  with assms(1) have "py_upper U l = l" by (rule py_upper_spaces)
  with assms(2) have "x \<in> set l" by simp
  with \<open>\<forall>c\<in>set l. isspace c\<close> assms(3) show False by blast
qed

subsection \<open>A marker between whitespace\<close>

lemma sublist_after_spaces:
  assumes "\<forall>c\<in>set p. isspace c" and "mk \<noteq> []" and "\<not> isspace (hd mk)"
    and "sublist mk (p @ ys)"
  shows "sublist mk ys"
  using assms(1,4)
proof (induction p)
  case Nil
  then show ?case by simp
next
  case (Cons w p)
  from assms(2) obtain a mk' where mk: "mk = a # mk'" by (cases mk) auto
  from Cons.prems(2) have "prefix mk (w # p @ ys) \<or> sublist mk (p @ ys)"
    by (simp add: sublist_Cons_right)
  then show ?case
  proof
    assume "prefix mk (w # p @ ys)"
    with mk have "a = w" by simp
    with mk Cons.prems(1) assms(3) show ?thesis by simp
  next
    assume "sublist mk (p @ ys)"
    with Cons show ?thesis by simp
  qed
qed

lemma sublist_before_spaces:
  assumes "\<forall>c\<in>set q. isspace c" and "mk \<noteq> []" and "\<not> isspace (last mk)"
    and "sublist mk (ys @ q)"
  shows "sublist mk ys"
proof -
  from assms(4) have "sublist (rev mk) (rev q @ rev ys)"
    by (metis rev_append sublist_rev)
  moreover from assms(1) have "\<forall>c\<in>set (rev q). isspace c" by simp
  moreover from assms(2,3) have "rev mk \<noteq> []" "\<not> isspace (hd (rev mk))"
    by (simp_all add: hd_rev)
  ultimately have "sublist (rev mk) (rev ys)"
    using sublist_after_spaces by blast
  then show ?thesis by simp
qed

lemma marker_in_lstrip:
  assumes "keeps_whitespace U" and "mk \<noteq> []" and "\<not> isspace (hd mk)"
    and "sublist mk (py_upper U l)"
  shows "sublist mk (py_upper U (py_lstrip l))"
proof -
  obtain p where p: "l = p @ py_lstrip l" "\<forall>c\<in>set p. isspace c"
    using py_lstrip_decomp by blast
  then have "py_upper U l = p @ py_upper U (py_lstrip l)"
    using assms(1) by (metis py_upper_append py_upper_spaces)
  with assms p(2) show ?thesis
    using sublist_after_spaces by metis
qed

lemma marker_in_rstrip:
  assumes "keeps_whitespace U" and "mk \<noteq> []" and "\<not> isspace (last mk)"
    and "sublist mk (py_upper U l)"
  shows "sublist mk (py_upper U (py_rstrip l))"
proof -
  obtain q where q: "l = py_rstrip l @ q" "\<forall>c\<in>set q. isspace c"
    using py_rstrip_decomp by blast
  then have "py_upper U l = py_upper U (py_rstrip l) @ q"
    using assms(1) by (metis py_upper_append py_upper_spaces)
  with assms q(2) show ?thesis
    using sublist_before_spaces by metis
qed

subsection \<open>The first line of a reply\<close>

lemma extract_verdict_first_line:
  "extract_verdict U r =
     (let first_line = py_upper U (takeWhile (\<lambda>c. c \<noteq> newline) (py_strip r)) in
      if py_in (py ''VERDICT: SAFE'') first_line then Inr (py ''safe'')
      else if py_in (py ''VERDICT: UNSAFE'') first_line then Inr (py ''unsafe'')
      else Inr (py ''unknown''))"
  by (simp add: extract_verdict_def py_index_split)

lemma first_line_contains:
  assumes U: "keeps_whitespace U" and nl: "newline \<notin> set l"
    and mk: "mk \<noteq> []" "\<not> isspace (hd mk)" "\<not> isspace (last mk)"
    and sub: "sublist mk (py_upper U l)"
  shows "sublist mk (py_upper U (takeWhile (\<lambda>c. c \<noteq> newline) (py_strip (py_join [newline] (l # ls)))))"
proof -
  obtain rest where rest: "py_join [newline] (l # ls) = l @ rest" "rest = [] \<or> hd rest = newline"
    using py_join_newline_shape by blast
  from mk(1) have "hd mk \<in> set mk" by simp
  with sub have "hd mk \<in> set (py_upper U l)"
    by (meson set_mono_sublist subsetD)
  from U this mk(2) have ns: "\<exists>c\<in>set l. \<not> isspace c"
    by (rule nonspace_of_upper)
  have left: "sublist mk (py_upper U (py_lstrip l))"
    using U mk(1,2) sub by (rule marker_in_lstrip)
  then have both: "sublist mk (py_upper U (py_strip l))"
    unfolding py_strip_def using U mk(1,3) by (intro marker_in_rstrip)
  from first_line_strip [OF nl ns rest(2)] rest(1) left both show ?thesis
    by (simp split: if_splits)
qed

lemma first_line_exact:
  assumes U: "keeps_whitespace U" and up: "py_upper U m = mk"
    and mk: "mk \<noteq> []" "\<not> isspace (hd mk)" "\<not> isspace (last mk)" "newline \<notin> set mk"
  shows "newline \<notin> set m"
    and "takeWhile (\<lambda>c. c \<noteq> newline) (py_strip (py_join [newline] (m # ls))) = m"
proof -
  show nl: "newline \<notin> set m"
  proof
    assume "newline \<in> set m"
    moreover have "U newline = [newline]"
      using U isspace_newline by (rule keeps_whitespaceD)
    ultimately have "newline \<in> set (py_upper U m)"
      by (force simp: py_upper_def)
    with up mk(4) show False by simp
  qed
  from up mk(1) have ne: "m \<noteq> []" by (auto simp: py_upper_def)
  have h: "\<not> isspace (hd m)"
  proof
    assume sp: "isspace (hd m)"
    from ne obtain c m' where m: "m = c # m'" by (cases m) auto
    with sp U have "U c = [c]" by (simp add: keeps_whitespaceD)
    with m up have "hd mk = c" by (auto simp: py_upper_def)
    with m sp mk(2) show False by simp
  qed
  have t: "\<not> isspace (last m)"
  proof
    assume sp: "isspace (last m)"
    from ne obtain c m' where m: "m = m' @ [c]" by (cases m rule: rev_cases) auto
    with sp U have "U c = [c]" by (simp add: keeps_whitespaceD)
    with m up have "last mk = c" by (auto simp: py_upper_def)
    with m sp mk(3) show False by simp
  qed
  obtain rest where rest: "py_join [newline] (m # ls) = m @ rest" "rest = [] \<or> hd rest = newline"
    using py_join_newline_shape by blast
  from ne h have ns: "\<exists>c\<in>set m. \<not> isspace c" by (auto intro: bexI [of _ "hd m"])
  from first_line_strip [OF nl ns rest(2)] rest(1) ne h t
  show "takeWhile (\<lambda>c. c \<noteq> newline) (py_strip (py_join [newline] (m # ls))) = m"
    by (simp add: py_strip_id py_lstrip_id)
qed

lemma safe_marker:
  "py ''VERDICT: SAFE'' \<noteq> []" "\<not> isspace (hd (py ''VERDICT: SAFE''))"
  "\<not> isspace (last (py ''VERDICT: SAFE''))" "newline \<notin> set (py ''VERDICT: SAFE'')"
  by (simp_all add: py_def isspace_def whitespace_code_points_def newline_def)

lemma unsafe_marker:
  "py ''VERDICT: UNSAFE'' \<noteq> []" "\<not> isspace (hd (py ''VERDICT: UNSAFE''))"
  "\<not> isspace (last (py ''VERDICT: UNSAFE''))" "newline \<notin> set (py ''VERDICT: UNSAFE'')"
  by (simp_all add: py_def isspace_def whitespace_code_points_def newline_def)

lemma safe_not_in_unsafe: "\<not> py_in (py ''VERDICT: SAFE'') (py ''VERDICT: UNSAFE'')"
  unfolding py_in_def by code_simp

lemma keeps_whitespace_ascii: "keeps_whitespace ascii_upper"
  by (simp add: keeps_whitespace_def whitespace_code_points_def ascii_upper_def)

section \<open>The verdict extractor\<close>

text \<open>
  C3. A reply whose first line is the SAFE marker, in any letter case, is classified
  \<open>safe\<close>, whatever the later lines \<open>ls\<close> are. The first line is \<open>m\<close>, the reply is \<open>m\<close>
  followed by the later lines, each after a line break; \<open>m\<close> is the marker in some letter
  case when uppercasing it gives the marker.
\<close>

theorem extract_verdict_safe:
  assumes "keeps_whitespace U" and "py_upper U m = py ''VERDICT: SAFE''"
  shows "extract_verdict U (py_join [newline] (m # ls)) = Inr (py ''safe'')"
proof -
  from assms safe_marker
  have "takeWhile (\<lambda>c. c \<noteq> newline) (py_strip (py_join [newline] (m # ls))) = m"
    by (intro first_line_exact(2))
  with assms(2) show ?thesis
    by (simp add: extract_verdict_first_line py_in_def)
qed

theorem extract_verdict_safe_witness:
  "keeps_whitespace ascii_upper \<and>
   py_upper ascii_upper (py ''Verdict: safe'') = py ''VERDICT: SAFE'' \<and>
   extract_verdict ascii_upper
     (py ''Verdict: safe\<newline>It is not unsafe.\<newline>VERDICT: UNSAFE'') = Inr (py ''safe'')"
proof -
  have a: "py_upper ascii_upper (py ''Verdict: safe'') = py ''VERDICT: SAFE''"
    by (simp add: py_upper_def ascii_upper_def py_def)
  have b: "py_join [newline] [py ''Verdict: safe'', py ''It is not unsafe.'', py ''VERDICT: UNSAFE'']
         = py ''Verdict: safe\<newline>It is not unsafe.\<newline>VERDICT: UNSAFE''"
    by (simp add: py_def newline_def)
  from extract_verdict_safe [OF keeps_whitespace_ascii a,
      of "[py ''It is not unsafe.'', py ''VERDICT: UNSAFE'']"] a b keeps_whitespace_ascii
  show ?thesis by simp
qed

text \<open>
  C10. When the first line \<open>l\<close> of a reply contains, once uppercased, both the SAFE and
  the UNSAFE marker, the reply is classified \<open>safe\<close>: the SAFE marker is looked for first.
\<close>

theorem extract_verdict_safe_first:
  assumes "keeps_whitespace U" and "newline \<notin> set l"
    and "py_in (py ''VERDICT: SAFE'') (py_upper U l)"
    and "py_in (py ''VERDICT: UNSAFE'') (py_upper U l)"
  shows "extract_verdict U (py_join [newline] (l # ls)) = Inr (py ''safe'')"
proof -
  from assms(1,2) safe_marker(1-3) assms(3)
  have "sublist (py ''VERDICT: SAFE'')
          (py_upper U (takeWhile (\<lambda>c. c \<noteq> newline) (py_strip (py_join [newline] (l # ls)))))"
    unfolding py_in_def by (rule first_line_contains)
  then show ?thesis
    by (simp add: extract_verdict_first_line py_in_def)
qed

theorem extract_verdict_safe_first_witness:
  "keeps_whitespace ascii_upper \<and>
   newline \<notin> set (py ''verdict: unsafe? No, VERDICT: SAFE'') \<and>
   py_in (py ''VERDICT: SAFE'') (py_upper ascii_upper (py ''verdict: unsafe? No, VERDICT: SAFE'')) \<and>
   py_in (py ''VERDICT: UNSAFE'') (py_upper ascii_upper (py ''verdict: unsafe? No, VERDICT: SAFE'')) \<and>
   extract_verdict ascii_upper (py ''verdict: unsafe? No, VERDICT: SAFE\<newline>but unsafe'')
     = Inr (py ''safe'')"
proof -
  have n: "newline \<notin> set (py ''verdict: unsafe? No, VERDICT: SAFE'')"
    by (simp add: py_def newline_def)
  have u: "py_upper ascii_upper (py ''verdict: unsafe? No, VERDICT: SAFE'')
             = py ''VERDICT: UNSAFE? NO, VERDICT: SAFE''"
    by (simp add: py_upper_def ascii_upper_def py_def)
  have a: "py_in (py ''VERDICT: SAFE'') (py_upper ascii_upper (py ''verdict: unsafe? No, VERDICT: SAFE''))"
    unfolding u py_in_def by code_simp
  have b: "py_in (py ''VERDICT: UNSAFE'') (py_upper ascii_upper (py ''verdict: unsafe? No, VERDICT: SAFE''))"
    unfolding u py_in_def by code_simp
  have j: "py_join [newline] [py ''verdict: unsafe? No, VERDICT: SAFE'', py ''but unsafe'']
             = py ''verdict: unsafe? No, VERDICT: SAFE\<newline>but unsafe''"
    by (simp add: py_def newline_def)
  from extract_verdict_safe_first [OF keeps_whitespace_ascii n a b, of "[py ''but unsafe'']"]
    keeps_whitespace_ascii n a b j
  show ?thesis by simp
qed

section \<open>The consensus resolver\<close>

lemma py_str_digit: "n < 10 \<Longrightarrow> py_str n = [48 + n]"
  by (simp add: py_str.simps)

lemma consensus_by_count:
  "verdict (evaluate_consensus a b c) =
     (if length (filter safe [a, b, c]) = 3 then py ''SAFE''
      else if length (filter safe [a, b, c]) = 0 then py ''UNSAFE''
      else py ''REVIEW_REQUIRED'')"
  "confidence (evaluate_consensus a b c) =
     (if length (filter safe [a, b, c]) = 3 \<or> length (filter safe [a, b, c]) = 0 then py ''high''
      else py ''uncertain'')"
  by (cases "safe a"; cases "safe b"; cases "safe c"; simp add: evaluate_consensus_def Let_def)+

text \<open>
  C1. The consensus follows the table by the number \<open>k\<close> of safe votes. Three: SAFE, high,
  no dissenter. None: UNSAFE, high, all three models. One or two: REVIEW_REQUIRED,
  uncertain, the dissenters are the models whose result is not safe, and the rationale
  is the number \<open>3 - k\<close> of them followed by \<open>of 3 models flagged concerns\<close>.
\<close>

theorem evaluate_consensus_table:
  "let r = evaluate_consensus a b c; k = length (filter safe [a, b, c]) in
     (k = 3 \<longrightarrow> verdict r = py ''SAFE'' \<and> confidence r = py ''high'' \<and> flagged_by r = []) \<and>
     (k = 0 \<longrightarrow> verdict r = py ''UNSAFE'' \<and> confidence r = py ''high'' \<and>
        flagged_by r = [py ''Claude'', py ''GPT-5'', py ''Llama'']) \<and>
     (k = 1 \<or> k = 2 \<longrightarrow> verdict r = py ''REVIEW_REQUIRED'' \<and> confidence r = py ''uncertain'' \<and>
        flagged_by r = map fst (filter (\<lambda>(n, m). \<not> safe m)
                          [(py ''Claude'', a), (py ''GPT-5'', b), (py ''Llama'', c)]) \<and>
        reasoning r = py_str (3 - k) @ py '' of 3 models flagged concerns'')"
proof (cases "safe a"; cases "safe b"; cases "safe c")
  assume "safe a" "safe b" "safe c"
  then show ?thesis by (simp add: evaluate_consensus_def)
next
  assume "\<not> safe a" "\<not> safe b" "\<not> safe c"
  then show ?thesis by (simp add: evaluate_consensus_def)
qed (simp_all add: evaluate_consensus_def Let_def py_str_digit)

theorem evaluate_consensus_table_witness:
  "length (filter safe [vote (py ''a'') True, vote (py ''b'') False, vote (py ''c'') False]) = 1 \<and>
   verdict (evaluate_consensus (vote (py ''a'') True) (vote (py ''b'') False) (vote (py ''c'') False))
     = py ''REVIEW_REQUIRED'' \<and>
   confidence (evaluate_consensus (vote (py ''a'') True) (vote (py ''b'') False) (vote (py ''c'') False))
     = py ''uncertain'' \<and>
   flagged_by (evaluate_consensus (vote (py ''a'') True) (vote (py ''b'') False) (vote (py ''c'') False))
     = [py ''GPT-5'', py ''Llama''] \<and>
   reasoning (evaluate_consensus (vote (py ''a'') True) (vote (py ''b'') False) (vote (py ''c'') False))
     = py ''2 of 3 models flagged concerns''"
proof -
  have k: "length (filter safe [vote (py ''a'') True, vote (py ''b'') False, vote (py ''c'') False]) = 1"
    by (simp add: vote_def)
  have d: "py_str 2 @ py '' of 3 models flagged concerns'' = py ''2 of 3 models flagged concerns''"
    by (simp add: py_str_digit py_def)
  from evaluate_consensus_table
    [of "vote (py ''a'') True" "vote (py ''b'') False" "vote (py ''c'') False"] k d
  show ?thesis by (simp add: Let_def vote_def)
qed

text \<open>
  C2. Whatever the three votes are, the number of dissenters is three minus the number of
  safe votes, the verdict is SAFE exactly when there is no dissenter, and it is UNSAFE
  exactly when all three models are among the dissenters.
\<close>

theorem evaluate_consensus_invariant:
  "let r = evaluate_consensus a b c in
     length (flagged_by r) = 3 - length (filter safe [a, b, c]) \<and>
     length (flagged_by r) + length (filter safe [a, b, c]) = 3 \<and>
     (verdict r = py ''SAFE'') = (flagged_by r = []) \<and>
     (verdict r = py ''UNSAFE'') = ({py ''Claude'', py ''GPT-5'', py ''Llama''} \<subseteq> set (flagged_by r))"
  by (cases "safe a"; cases "safe b"; cases "safe c")
     (simp_all add: evaluate_consensus_def Let_def py_def)

theorem evaluate_consensus_invariant_witness:
  "length (flagged_by (evaluate_consensus (vote (py ''a'') False) (vote (py ''b'') True) (vote (py ''c'') False)))
     = 3 - length (filter safe [vote (py ''a'') False, vote (py ''b'') True, vote (py ''c'') False]) \<and>
   length (filter safe [vote (py ''a'') False, vote (py ''b'') True, vote (py ''c'') False]) = 1 \<and>
   flagged_by (evaluate_consensus (vote (py ''a'') False) (vote (py ''b'') True) (vote (py ''c'') False))
     = [py ''Claude'', py ''Llama'']"
proof -
  have "flagged_by (evaluate_consensus (vote (py ''a'') False) (vote (py ''b'') True) (vote (py ''c'') False))
     = [py ''Claude'', py ''Llama'']"
    by (simp add: evaluate_consensus_def vote_def)
  with evaluate_consensus_invariant
    [of "vote (py ''a'') False" "vote (py ''b'') True" "vote (py ''c'') False"]
  show ?thesis by (simp add: Let_def vote_def)
qed

text \<open>
  C8. The verdict and the confidence are the same for every permutation \<open>x, y, z\<close> of
  the three results \<open>a, b, c\<close>; the dissenters may differ.
\<close>

theorem evaluate_consensus_symmetric:
  assumes "mset [x, y, z] = mset [a, b, c]"
  shows "verdict (evaluate_consensus x y z) = verdict (evaluate_consensus a b c) \<and>
         confidence (evaluate_consensus x y z) = confidence (evaluate_consensus a b c)"
proof -
  from assms have "filter_mset safe (mset [x, y, z]) = filter_mset safe (mset [a, b, c])"
    by (rule arg_cong)
  then have "mset (filter safe [x, y, z]) = mset (filter safe [a, b, c])"
    by (simp only: mset_filter)
  then have "length (filter safe [x, y, z]) = length (filter safe [a, b, c])"
    by (rule mset_eq_length)
  then show ?thesis
    by (simp only: consensus_by_count)
qed

theorem evaluate_consensus_symmetric_witness:
  "mset [vote (py ''c'') False, vote (py ''a'') True, vote (py ''b'') True]
     = mset [vote (py ''a'') True, vote (py ''b'') True, vote (py ''c'') False] \<and>
   verdict (evaluate_consensus (vote (py ''c'') False) (vote (py ''a'') True) (vote (py ''b'') True))
     = py ''REVIEW_REQUIRED'' \<and>
   verdict (evaluate_consensus (vote (py ''a'') True) (vote (py ''b'') True) (vote (py ''c'') False))
     = py ''REVIEW_REQUIRED'' \<and>
   flagged_by (evaluate_consensus (vote (py ''c'') False) (vote (py ''a'') True) (vote (py ''b'') True))
     = [py ''Claude''] \<and>
   flagged_by (evaluate_consensus (vote (py ''a'') True) (vote (py ''b'') True) (vote (py ''c'') False))
     = [py ''Llama'']"
proof -
  have m: "mset [vote (py ''c'') False, vote (py ''a'') True, vote (py ''b'') True]
             = mset [vote (py ''a'') True, vote (py ''b'') True, vote (py ''c'') False]"
    by simp
  have "verdict (evaluate_consensus (vote (py ''a'') True) (vote (py ''b'') True) (vote (py ''c'') False))
          = py ''REVIEW_REQUIRED''"
    by (simp add: evaluate_consensus_def vote_def)
  with evaluate_consensus_symmetric [OF m] m show ?thesis
    by (simp add: evaluate_consensus_def vote_def)
qed

section \<open>The model adapters\<close>

lemma extract_verdict_total: "\<exists>v. extract_verdict U r = Inr v"
  by (simp add: extract_verdict_first_line Let_def)

lemma adapter_cases:
  assumes "(analyze, client) \<in> set model_adapters"
  obtains "analyze = analyze_with_claude" "client = claude_client"
  | "analyze = analyze_with_gpt5" "client = openai_client"
  | "analyze = analyze_with_llama" "client = together_client"
  using assms by (auto simp: model_adapters_def)

lemma adapter_raised:
  assumes "(analyze, client) \<in> set model_adapters" and "client env request = Raised e"
  shows "\<exists>r w'. analyze U env request w = (Inr r, w') \<and> \<not> safe r \<and>
           concerns r = [py ''API Error: '' @ e] \<and>
           ModelResponse.reasoning r = py ''Error occurred during analysis''"
  using assms(1)
proof (cases rule: adapter_cases)
  case 1
  with assms(2) show ?thesis by (simp add: analyze_with_claude_def)
next
  case 2
  with assms(2) show ?thesis by (simp add: analyze_with_gpt5_def)
next
  case 3
  with assms(2) show ?thesis by (simp add: analyze_with_llama_def)
qed

lemma adapter_reply:
  assumes "(analyze, client) \<in> set model_adapters" and "client env request = Reply r"
    and "extract_verdict U r = Inr v"
  shows "\<exists>m w'. analyze U env request w = (Inr m, w') \<and>
           safe m = (v = py ''safe'') \<and>
           concerns m =
             (if v = py ''unsafe'' then
                (if py_strip (py_join (py '' '') (drop 1 (py_split newline r))) \<noteq> []
                 then [take 200 (py_strip (py_join (py '' '') (drop 1 (py_split newline r))))]
                 else [])
              else []) \<and>
           ModelResponse.reasoning m = take 200 r"
  using assms(1)
proof (cases rule: adapter_cases)
  case 1
  with assms(2,3) show ?thesis by (simp add: analyze_with_claude_def Let_def)
next
  case 2
  with assms(2,3) show ?thesis by (simp add: analyze_with_gpt5_def Let_def)
next
  case 3
  with assms(2,3) show ?thesis by (simp add: analyze_with_llama_def Let_def)
qed

lemma claude_adapter: "(analyze_with_claude, claude_client) \<in> set model_adapters"
  and gpt5_adapter: "(analyze_with_gpt5, openai_client) \<in> set model_adapters"
  and llama_adapter: "(analyze_with_llama, together_client) \<in> set model_adapters"
  by (simp_all add: model_adapters_def)

lemmas run_simps =
  analyze_with_claude_def analyze_with_gpt5_def analyze_with_llama_def
  surroundings_def empty_world_def extract_verdict_first_line
  py_strip_def py_lstrip_def py_rstrip_def isspace_def whitespace_code_points_def
  py_upper_def ascii_upper_def py_in_def sublist_Cons_right py_def newline_def Let_def

text \<open>
  What holds of every adapter: when its \<open>try\<close> block ends with a text or with an
  exception, it returns a result, the fail-closed one after an exception.
\<close>

lemma adapter_returns:
  assumes "(analyze, client) \<in> set model_adapters" and "client env request \<noteq> NoneReply"
  shows "\<exists>r w'. analyze U env request w = (Inr r, w') \<and>
           (\<forall>e. client env request = Raised e \<longrightarrow>
              \<not> safe r \<and> concerns r = [py ''API Error: '' @ e] \<and>
              ModelResponse.reasoning r = py ''Error occurred during analysis'')"
proof (cases "client env request")
  case (Reply r)
  obtain v where "extract_verdict U r = Inr v"
    using extract_verdict_total by blast
  with assms(1) Reply have "\<exists>m w'. analyze U env request w = (Inr m, w')"
    using adapter_reply [of analyze client env request r U v w] by blast
  with Reply show ?thesis by auto
next
  case NoneReply
  with assms(2) show ?thesis by simp
next
  case (Raised e)
  with assms(1) show ?thesis
    using adapter_raised [of analyze client env request e U w] by auto
qed

text \<open>
  C5 has every adapter return a result whatever its provider's call ends with, a
  malformed reply included. The code does not: when the reply of the OpenAI or of the
  Together client has no content, the \<open>try\<close> block of \<open>analyze_with_gpt5\<close> or of
  \<open>analyze_with_llama\<close> ends without an exception, and the adapter raises
  \<open>AttributeError\<close> where it should return its fail-closed result.
\<close>

theorem adapter_raises_without_content:
  "(openai_client env request = NoneReply \<longrightarrow>
      fst (analyze_with_gpt5 U env request w) = Inl AttributeError) \<and>
   (together_client env request = NoneReply \<longrightarrow>
      fst (analyze_with_llama U env request w) = Inl AttributeError)"
  by (simp add: analyze_with_gpt5_def analyze_with_llama_def Let_def)

theorem adapter_raises_without_content_witness:
  "openai_client (surroundings (Reply (py ''VERDICT: SAFE'')) NoneReply (Reply (py ''VERDICT: SAFE'')) None)
      (py ''q'') = NoneReply \<and>
   fst (analyze_with_gpt5 ascii_upper
          (surroundings (Reply (py ''VERDICT: SAFE'')) NoneReply (Reply (py ''VERDICT: SAFE'')) None)
          (py ''q'') empty_world) = Inl AttributeError \<and>
   together_client (surroundings (Reply (py ''VERDICT: SAFE'')) (Reply (py ''VERDICT: SAFE'')) NoneReply None)
      (py ''q'') = NoneReply \<and>
   fst (analyze_with_llama ascii_upper
          (surroundings (Reply (py ''VERDICT: SAFE'')) (Reply (py ''VERDICT: SAFE'')) NoneReply None)
          (py ''q'') empty_world) = Inl AttributeError"
  using adapter_raises_without_content [of
      "surroundings (Reply (py ''VERDICT: SAFE'')) NoneReply (Reply (py ''VERDICT: SAFE'')) None"
      "py ''q''" ascii_upper empty_world]
    adapter_raises_without_content [of
      "surroundings (Reply (py ''VERDICT: SAFE'')) (Reply (py ''VERDICT: SAFE'')) NoneReply None"
      "py ''q''" ascii_upper empty_world]
  by (simp add: surroundings_def)

text \<open>
  C6. When the provider replied with \<open>r\<close>, the reasoning of the result is the first 200
  characters of \<open>r\<close>, whatever the verdict is; and when the verdict extracted from \<open>r\<close>
  is \<open>unknown\<close>, the result is not safe and has no concern.
\<close>

theorem unknown_fails_closed:
  assumes "(analyze, client) \<in> set model_adapters" and "client env request = Reply r"
  shows "\<exists>m w'. analyze U env request w = (Inr m, w') \<and>
           ModelResponse.reasoning m = take 200 r \<and>
           (extract_verdict U r = Inr (py ''unknown'') \<longrightarrow> \<not> safe m \<and> concerns m = [])"
proof -
  obtain v where v: "extract_verdict U r = Inr v"
    using extract_verdict_total by blast
  from adapter_reply [OF assms v, of w]
  obtain m w' where m: "analyze U env request w = (Inr m, w')"
    "safe m = (v = py ''safe'')"
    "v \<noteq> py ''unsafe'' \<Longrightarrow> concerns m = []"
    "ModelResponse.reasoning m = take 200 r"
    by auto
  have "py ''unknown'' \<noteq> py ''safe''" "py ''unknown'' \<noteq> py ''unsafe''"
    by (simp_all add: py_def)
  with m v show ?thesis by auto
qed

theorem unknown_fails_closed_witness:
  "(analyze_with_gpt5, openai_client) \<in> set model_adapters \<and>
   openai_client (surroundings (Reply []) (Reply (py ''I cannot say.\<newline>VERDICT: SAFE'')) (Reply []) None)
      (py ''q'') = Reply (py ''I cannot say.\<newline>VERDICT: SAFE'') \<and>
   extract_verdict ascii_upper (py ''I cannot say.\<newline>VERDICT: SAFE'') = Inr (py ''unknown'') \<and>
   fst (analyze_with_gpt5 ascii_upper
          (surroundings (Reply []) (Reply (py ''I cannot say.\<newline>VERDICT: SAFE'')) (Reply []) None)
          (py ''q'') empty_world)
     = Inr \<lparr>model_name = py ''GPT 5.2 Thinking'', safe = False, concerns = [],
            reasoning = py ''I cannot say.\<newline>VERDICT: SAFE''\<rparr>"
  using unknown_fails_closed [OF gpt5_adapter, of
      "surroundings (Reply []) (Reply (py ''I cannot say.\<newline>VERDICT: SAFE'')) (Reply []) None"
      "py ''q''" "py ''I cannot say.\<newline>VERDICT: SAFE''" ascii_upper empty_world]
  by (simp add: run_simps model_adapters_def)

text \<open>
  C4, as the code has it. A reply whose first line \<open>m\<close> is the UNSAFE marker, in any
  letter case, and whose later lines are \<open>ls\<close>, is classified \<open>unsafe\<close>. The adapter
  joins the later lines with single spaces and strips the whitespace at both ends of the
  result; the concern is the first 200 characters of what is left, and there is no concern
  when nothing is left.
\<close>

theorem unsafe_concern:
  assumes "(analyze, client) \<in> set model_adapters"
    and U: "keeps_whitespace U"
    and up: "py_upper U m = py ''VERDICT: UNSAFE''"
    and ls: "\<forall>l\<in>set ls. newline \<notin> set l"
    and reply: "client env request = Reply (py_join [newline] (m # ls))"
  shows "extract_verdict U (py_join [newline] (m # ls)) = Inr (py ''unsafe'') \<and>
         (\<exists>r w'. analyze U env request w = (Inr r, w') \<and>
            concerns r = (if py_strip (py_join (py '' '') ls) = [] then []
                          else [take 200 (py_strip (py_join (py '' '') ls))]))"
proof -
  from U up unsafe_marker
  have nl: "newline \<notin> set m"
    and first: "takeWhile (\<lambda>c. c \<noteq> newline) (py_strip (py_join [newline] (m # ls))) = m"
    by (rule first_line_exact)+
  from first up safe_not_in_unsafe
  have v: "extract_verdict U (py_join [newline] (m # ls)) = Inr (py ''unsafe'')"
    by (simp add: extract_verdict_first_line py_in_def)
  from nl ls have "py_split newline (py_join [newline] (m # ls)) = m # ls"
    by (intro py_split_join) simp
  then have rest: "drop 1 (py_split newline (py_join [newline] (m # ls))) = ls"
    by simp
  from adapter_reply [OF assms(1) reply v, of w] rest v show ?thesis
    by auto
qed

theorem unsafe_concern_witness:
  "(analyze_with_claude, claude_client) \<in> set model_adapters \<and>
   keeps_whitespace ascii_upper \<and>
   py_upper ascii_upper (py ''Verdict: Unsafe'') = py ''VERDICT: UNSAFE'' \<and>
   py_join [newline] [py ''Verdict: Unsafe'', [], py ''It asks for a weapon. '', py ''Refuse.'']
     = py ''Verdict: Unsafe\<newline>\<newline>It asks for a weapon. \<newline>Refuse.'' \<and>
   extract_verdict ascii_upper (py ''Verdict: Unsafe\<newline>\<newline>It asks for a weapon. \<newline>Refuse.'')
     = Inr (py ''unsafe'') \<and>
   fst (analyze_with_claude ascii_upper
          (surroundings (Reply (py ''Verdict: Unsafe\<newline>\<newline>It asks for a weapon. \<newline>Refuse.''))
             (Reply []) (Reply []) None)
          (py ''q'') empty_world)
     = Inr \<lparr>model_name = py ''Claude Sonnet 4'', safe = False,
            concerns = [py ''It asks for a weapon.  Refuse.''],
            reasoning = py ''Verdict: Unsafe\<newline>\<newline>It asks for a weapon. \<newline>Refuse.''\<rparr>"
proof -
  have up: "py_upper ascii_upper (py ''Verdict: Unsafe'') = py ''VERDICT: UNSAFE''"
    by (simp add: py_upper_def ascii_upper_def py_def)
  have ls: "\<forall>l\<in>set [[], py ''It asks for a weapon. '', py ''Refuse.'']. newline \<notin> set l"
    by (simp add: py_def newline_def)
  have j: "py_join [newline] [py ''Verdict: Unsafe'', [], py ''It asks for a weapon. '', py ''Refuse.'']
             = py ''Verdict: Unsafe\<newline>\<newline>It asks for a weapon. \<newline>Refuse.''"
    by (simp add: py_def newline_def)
  have r: "claude_client
             (surroundings (Reply (py ''Verdict: Unsafe\<newline>\<newline>It asks for a weapon. \<newline>Refuse.''))
                (Reply []) (Reply []) None) (py ''q'')
           = Reply (py_join [newline] [py ''Verdict: Unsafe'', [], py ''It asks for a weapon. '', py ''Refuse.''])"
    unfolding j by (simp add: surroundings_def)
  from unsafe_concern [OF claude_adapter keeps_whitespace_ascii up ls r, of empty_world]
    claude_adapter keeps_whitespace_ascii up j
  show ?thesis by (simp add: run_simps)
qed

text \<open>
  C4, as it is stated, has the concern equal to the later lines joined and cut to 200
  characters, with no stripping. The reply \<open>VERDICT: UNSAFE\<close>, line break, \<open> bad\<close> has
  one later line, \<open> bad\<close> with a space before it, so that joining gives that line whatever
  the separator is; the adapter records \<open>bad\<close>.
\<close>

theorem unsafe_concern_counterexample:
  "fst (analyze_with_claude ascii_upper
          (surroundings (Reply (py ''VERDICT: UNSAFE\<newline> bad'')) (Reply []) (Reply []) None)
          (py ''q'') empty_world)
     = Inr \<lparr>model_name = py ''Claude Sonnet 4'', safe = False, concerns = [py ''bad''],
            reasoning = py ''VERDICT: UNSAFE\<newline> bad''\<rparr> \<and>
   take 200 (py_join (py '' '') (drop 1 (py_split newline (py ''VERDICT: UNSAFE\<newline> bad''))))
     = py '' bad'' \<and>
   py '' bad'' \<noteq> py ''bad''"
  by (simp add: run_simps)

section \<open>The analysis with all three models\<close>

subsection \<open>The adapters and the world\<close>

lemma analyze_with_claude_run:
  assumes "claude_client env request \<noteq> NoneReply"
  shows "\<exists>r. (\<forall>w. analyze_with_claude U env request w =
            (Inr r, w\<lparr>provider_calls := provider_calls w @ [(Anthropic, request)]\<rparr>)) \<and>
       (\<forall>e. claude_client env request = Raised e \<longrightarrow>
          \<not> safe r \<and> concerns r = [py ''API Error: '' @ e])"
proof (cases "claude_client env request")
  case (Reply t)
  obtain v where "extract_verdict U t = Inr v" using extract_verdict_total by blast
  with Reply show ?thesis by (simp add: analyze_with_claude_def Let_def)
next
  case NoneReply
  with assms show ?thesis by simp
next
  case (Raised e)
  then show ?thesis by (simp add: analyze_with_claude_def)
qed

lemma analyze_with_gpt5_run:
  assumes "openai_client env request \<noteq> NoneReply"
  shows "\<exists>r. (\<forall>w. analyze_with_gpt5 U env request w =
            (Inr r, w\<lparr>provider_calls := provider_calls w @ [(OpenAI, request)]\<rparr>)) \<and>
       (\<forall>e. openai_client env request = Raised e \<longrightarrow>
          \<not> safe r \<and> concerns r = [py ''API Error: '' @ e])"
proof (cases "openai_client env request")
  case (Reply t)
  obtain v where "extract_verdict U t = Inr v" using extract_verdict_total by blast
  with Reply show ?thesis by (simp add: analyze_with_gpt5_def Let_def)
next
  case NoneReply
  with assms show ?thesis by simp
next
  case (Raised e)
  then show ?thesis by (simp add: analyze_with_gpt5_def)
qed

lemma analyze_with_llama_run:
  assumes "together_client env request \<noteq> NoneReply"
  shows "\<exists>r. (\<forall>w. analyze_with_llama U env request w =
            (Inr r, w\<lparr>provider_calls := provider_calls w @ [(Together, request)]\<rparr>)) \<and>
       (\<forall>e. together_client env request = Raised e \<longrightarrow>
          \<not> safe r \<and> concerns r = [py ''API Error: '' @ e])"
proof (cases "together_client env request")
  case (Reply t)
  obtain v where "extract_verdict U t = Inr v" using extract_verdict_total by blast
  with Reply show ?thesis by (simp add: analyze_with_llama_def Let_def)
next
  case NoneReply
  with assms show ?thesis by simp
next
  case (Raised e)
  then show ?thesis by (simp add: analyze_with_llama_def)
qed

lemmas all_simps = run_simps analyze_all_models_def store_results_def evaluate_consensus_def
  py_str_digit

text \<open>
  C9, as the code has it. Let each provider's call end with an exception or with a text.
  When the insertion into the database succeeds, the analysis returns a bundle: it holds
  the result of each of the three adapters, the fail-closed one for a provider that
  failed, and the consensus of these three results, and all three providers were called.
  When the insertion fails, the exception of the database leaves the handler and no
  bundle is returned, a partial one neither.
\<close>

theorem analyze_all_models_complete:
  assumes "claude_client env request \<noteq> NoneReply"
    and "openai_client env request \<noteq> NoneReply"
    and "together_client env request \<noteq> NoneReply"
  shows "(sqlite_error env = None \<longrightarrow>
           (\<exists>b w'. analyze_all_models U env request w = (Inr b, w') \<and>
              content b = request \<and>
              fst (analyze_with_claude U env request w) = Inr (claude b) \<and>
              fst (analyze_with_gpt5 U env request w) = Inr (gpt5 b) \<and>
              fst (analyze_with_llama U env request w) = Inr (llama b) \<and>
              consensus b = evaluate_consensus (claude b) (gpt5 b) (llama b) \<and>
              (\<forall>e. claude_client env request = Raised e \<longrightarrow>
                 \<not> safe (claude b) \<and> concerns (claude b) = [py ''API Error: '' @ e]) \<and>
              (\<forall>e. openai_client env request = Raised e \<longrightarrow>
                 \<not> safe (gpt5 b) \<and> concerns (gpt5 b) = [py ''API Error: '' @ e]) \<and>
              (\<forall>e. together_client env request = Raised e \<longrightarrow>
                 \<not> safe (llama b) \<and> concerns (llama b) = [py ''API Error: '' @ e]) \<and>
              provider_calls w' =
                provider_calls w @ [(Anthropic, request), (OpenAI, request), (Together, request)])) \<and>
         (\<forall>msg. sqlite_error env = Some msg \<longrightarrow>
            fst (analyze_all_models U env request w) = Inl (DatabaseError msg))"
proof -
  obtain c where c: "\<And>w. analyze_with_claude U env request w =
        (Inr c, w\<lparr>provider_calls := provider_calls w @ [(Anthropic, request)]\<rparr>)"
      "\<And>e. claude_client env request = Raised e \<Longrightarrow>
         \<not> safe c \<and> concerns c = [py ''API Error: '' @ e]"
    using analyze_with_claude_run [OF assms(1), of U] by blast
  obtain g where g: "\<And>w. analyze_with_gpt5 U env request w =
        (Inr g, w\<lparr>provider_calls := provider_calls w @ [(OpenAI, request)]\<rparr>)"
      "\<And>e. openai_client env request = Raised e \<Longrightarrow>
         \<not> safe g \<and> concerns g = [py ''API Error: '' @ e]"
    using analyze_with_gpt5_run [OF assms(2), of U] by blast
  obtain l where l: "\<And>w. analyze_with_llama U env request w =
        (Inr l, w\<lparr>provider_calls := provider_calls w @ [(Together, request)]\<rparr>)"
      "\<And>e. together_client env request = Raised e \<Longrightarrow>
         \<not> safe l \<and> concerns l = [py ''API Error: '' @ e]"
    using analyze_with_llama_run [OF assms(3), of U] by blast
  have stored: "\<exists>b w'. analyze_all_models U env request w = (Inr b, w') \<and>
              content b = request \<and>
              fst (analyze_with_claude U env request w) = Inr (claude b) \<and>
              fst (analyze_with_gpt5 U env request w) = Inr (gpt5 b) \<and>
              fst (analyze_with_llama U env request w) = Inr (llama b) \<and>
              consensus b = evaluate_consensus (claude b) (gpt5 b) (llama b) \<and>
              (\<forall>e. claude_client env request = Raised e \<longrightarrow>
                 \<not> safe (claude b) \<and> concerns (claude b) = [py ''API Error: '' @ e]) \<and>
              (\<forall>e. openai_client env request = Raised e \<longrightarrow>
                 \<not> safe (gpt5 b) \<and> concerns (gpt5 b) = [py ''API Error: '' @ e]) \<and>
              (\<forall>e. together_client env request = Raised e \<longrightarrow>
                 \<not> safe (llama b) \<and> concerns (llama b) = [py ''API Error: '' @ e]) \<and>
              provider_calls w' =
                provider_calls w @ [(Anthropic, request), (OpenAI, request), (Together, request)]"
    if ok: "sqlite_error env = None"
  proof -
    from ok c(1) g(1) l(1)
    have "analyze_all_models U env request w =
            (Inr \<lparr>content = request, claude = c, gpt5 = g, llama = l,
                  consensus = evaluate_consensus c g l, timestamp = returned_at env\<rparr>,
             snd (store_results env request c g l (evaluate_consensus c g l)
               (w\<lparr>provider_calls :=
                    provider_calls w @ [(Anthropic, request), (OpenAI, request), (Together, request)]\<rparr>)))"
      by (simp add: analyze_all_models_def store_results_def Let_def)
    moreover from ok
    have "provider_calls (snd (store_results env request c g l (evaluate_consensus c g l)
               (w\<lparr>provider_calls :=
                    provider_calls w @ [(Anthropic, request), (OpenAI, request), (Together, request)]\<rparr>)))
          = provider_calls w @ [(Anthropic, request), (OpenAI, request), (Together, request)]"
      by (simp add: store_results_def Let_def)
    ultimately show ?thesis
      using c g l by simp
  qed
  have failed: "fst (analyze_all_models U env request w) = Inl (DatabaseError msg)"
    if "sqlite_error env = Some msg" for msg
    using that c(1) g(1) l(1)
    by (simp add: analyze_all_models_def store_results_def Let_def)
  from stored failed show ?thesis by blast
qed

theorem analyze_all_models_complete_witness:
  "claude_client (surroundings (Raised (py ''connection reset''))
      (Reply (py ''VERDICT: SAFE\<newline>Harmless.'')) (Reply (py ''verdict: safe'')) None) (py ''hello'')
     \<noteq> NoneReply \<and>
   openai_client (surroundings (Raised (py ''connection reset''))
      (Reply (py ''VERDICT: SAFE\<newline>Harmless.'')) (Reply (py ''verdict: safe'')) None) (py ''hello'')
     \<noteq> NoneReply \<and>
   together_client (surroundings (Raised (py ''connection reset''))
      (Reply (py ''VERDICT: SAFE\<newline>Harmless.'')) (Reply (py ''verdict: safe'')) None) (py ''hello'')
     \<noteq> NoneReply \<and>
   sqlite_error (surroundings (Raised (py ''connection reset''))
      (Reply (py ''VERDICT: SAFE\<newline>Harmless.'')) (Reply (py ''verdict: safe'')) None) = None \<and>
   fst (analyze_all_models ascii_upper
          (surroundings (Raised (py ''connection reset''))
             (Reply (py ''VERDICT: SAFE\<newline>Harmless.'')) (Reply (py ''verdict: safe'')) None)
          (py ''hello'') empty_world)
     = Inr \<lparr>content = py ''hello'',
            claude = \<lparr>model_name = py ''Claude Sonnet 4'', safe = False,
                       concerns = [py ''API Error: connection reset''],
                       reasoning = py ''Error occurred during analysis''\<rparr>,
            gpt5 = \<lparr>model_name = py ''GPT 5.2 Thinking'', safe = True, concerns = [],
                     reasoning = py ''VERDICT: SAFE\<newline>Harmless.''\<rparr>,
            llama = \<lparr>model_name = py ''Llama 3.1 70B'', safe = True, concerns = [],
                      reasoning = py ''verdict: safe''\<rparr>,
            consensus = \<lparr>verdict = py ''REVIEW_REQUIRED'', confidence = py ''uncertain'',
                          reasoning = py ''1 of 3 models flagged concerns'',
                          flagged_by = [py ''Claude'']\<rparr>,
            timestamp = py ''2026-01-01T00:00:01''\<rparr>"
proof -
  let ?env = "surroundings (Raised (py ''connection reset''))
      (Reply (py ''VERDICT: SAFE\<newline>Harmless.'')) (Reply (py ''verdict: safe'')) None"
  have c: "claude_client ?env (py ''hello'') \<noteq> NoneReply"
    and g: "openai_client ?env (py ''hello'') \<noteq> NoneReply"
    and l: "together_client ?env (py ''hello'') \<noteq> NoneReply"
    by (simp_all add: surroundings_def)
  from analyze_all_models_complete [OF c g l, of ascii_upper empty_world] c g l
  show ?thesis by (simp add: all_simps)
qed

text \<open>
  C9, as it is stated, has the analysis return a bundle for every request and every
  combination of the providers' outcomes. With one provider failed and two replying
  \<open>safe\<close>, as in the scenario of the specification, but the insertion into the database
  failing, all three providers are called, nothing is stored and the handler raises.
\<close>

theorem analyze_all_models_complete_counterexample:
  "fst (analyze_all_models ascii_upper
          (surroundings (Raised (py ''connection reset''))
             (Reply (py ''VERDICT: SAFE\<newline>Harmless.'')) (Reply (py ''verdict: safe''))
             (Some (py ''database is locked'')))
          (py ''hello'') empty_world)
     = Inl (DatabaseError (py ''database is locked'')) \<and>
   snd (analyze_all_models ascii_upper
          (surroundings (Raised (py ''connection reset''))
             (Reply (py ''VERDICT: SAFE\<newline>Harmless.'')) (Reply (py ''verdict: safe''))
             (Some (py ''database is locked'')))
          (py ''hello'') empty_world)
     = \<lparr>provider_calls = [(Anthropic, py ''hello''), (OpenAI, py ''hello''), (Together, py ''hello'')],
        test_results = []\<rparr>"
  by (simp add: all_simps)

text \<open>
  The exception of an adapter leaves the handler too, which awaits the three adapters
  outside any \<open>try\<close> block: when the reply of the OpenAI client has no content, the
  handler raises with the database working, after two calls, and nothing is stored.
\<close>

lemma analyze_all_models_without_content:
  "analyze_all_models ascii_upper
     (surroundings (Reply (py ''VERDICT: SAFE'')) NoneReply (Reply (py ''VERDICT: SAFE'')) None)
     (py ''hello'') empty_world
     = (Inl AttributeError,
        \<lparr>provider_calls = [(Anthropic, py ''hello''), (OpenAI, py ''hello'')],
         test_results = []\<rparr>)"
  by (simp add: all_simps)

text \<open>
  C7, as it is stated, has the analysis reject a request of whitespace before a provider
  is called. The handler of \<open>/analyze-all\<close> checks nothing: on a request of a space, a
  line break and a space it calls the three providers and returns a bundle.
\<close>

theorem blank_request_counterexample:
  "py_strip (py '' \<newline> '') = [] \<and>
   \<not> isl (fst (analyze_all_models ascii_upper
          (surroundings (Reply (py ''VERDICT: SAFE'')) (Reply (py ''VERDICT: SAFE''))
             (Reply (py ''VERDICT: SAFE'')) None)
          (py '' \<newline> '') empty_world)) \<and>
   provider_calls (snd (analyze_all_models ascii_upper
          (surroundings (Reply (py ''VERDICT: SAFE'')) (Reply (py ''VERDICT: SAFE''))
             (Reply (py ''VERDICT: SAFE'')) None)
          (py '' \<newline> '') empty_world))
     = [(Anthropic, py '' \<newline> ''), (OpenAI, py '' \<newline> ''), (Together, py '' \<newline> '')]"
  by (simp add: all_simps)

text \<open>
  C7, as the code has it. The check is in the dashboard: on a prompt that is empty or all
  whitespace, \<open>analyze_prompt\<close> returns its message without sending the request, whatever
  the API would do with it, and the world is as before: no provider is called.
\<close>

theorem analyze_prompt_rejects_blank:
  assumes "\<forall>c\<in>set prompt. isspace c"
  shows "analyze_prompt post prompt w = (py ''Please enter a prompt to analyze.'', w)"
proof -
  from assms have "py_strip prompt = []" by (rule py_strip_spaces)
  then show ?thesis by (simp add: analyze_prompt_def)
qed

theorem analyze_prompt_rejects_blank_witness:
  "list_all isspace (py '' \<newline> '') \<and>
   analyze_prompt
     (post_analyze_all ascii_upper
        (surroundings (Reply (py ''VERDICT: SAFE'')) (Reply (py ''VERDICT: SAFE''))
           (Reply (py ''VERDICT: SAFE'')) None) [])
     (py '' \<newline> '') empty_world
     = (py ''Please enter a prompt to analyze.'', empty_world) \<and>
   provider_calls empty_world = []"
proof -
  have b: "\<forall>c\<in>set (py '' \<newline> ''). isspace c"
    by (simp add: py_def isspace_def whitespace_code_points_def)
  from analyze_prompt_rejects_blank [OF b] b show ?thesis
    by (simp add: empty_world_def list_all_iff)
qed

end
